theory Spec2Isabelle
  imports Main "HOL-Library.Word"
begin

unbundle bit_operations_syntax

section \<open>The world outside the two C modules\<close>

text \<open>
  The firmware consists of \<^verbatim>\<open>main.c\<close> (servo, advertising, button and the application
  callbacks) and the LBS service module (\<^verbatim>\<open>write_led\<close>, \<^verbatim>\<open>read_button\<close>,
  \<^verbatim>\<open>my_lbs_init\<close>). Everything they do to the outside is a call into a driver or the
  kernel. Each such call is recorded, in program order, as an event of one trace; the
  value a driver call returns is read from a script indexed by the number of earlier
  calls to that driver, so a run can succeed or fail at any call.

  Log lines carry the level and the format string of the call; the formatted arguments
  are left out (the degree signs of one message of \<^verbatim>\<open>run_servo_cycle\<close> likewise).
\<close>

type_synonym u8 = "8 word"
type_synonym u16 = "16 word"
type_synonym u32 = "32 word"

datatype log_level = LOG_INF | LOG_ERR

datatype dk_led = DK_LED1 | DK_LED2

datatype event =
    Log log_level string
  | PwmSet u32 u32
  | Sleep nat
  | SetLed dk_led bool
  | AdvStart

text \<open>The only work item of the program is \<^verbatim>\<open>adv_work\<close>.\<close>

datatype work = Adv_work

record world =
  app_button_state :: bool
  pwm_ready :: bool
  pwm_ret :: "nat \<Rightarrow> int"
  pwm_calls :: nat
  led_ret :: "nat \<Rightarrow> int"
  led_calls :: nat
  adv_ret :: "nat \<Rightarrow> int"
  adv_calls :: nat
  sys_work_q :: "work list"
  trace :: "event list"

definition emit :: "event \<Rightarrow> world \<Rightarrow> world" where
  "emit e w = w\<lparr>trace := trace w @ [e]\<rparr>"

definition log_msg :: "log_level \<Rightarrow> string \<Rightarrow> world \<Rightarrow> world" where
  "log_msg lvl msg w = emit (Log lvl msg) w"

fun is_log :: "event \<Rightarrow> bool" where
  "is_log (Log _ _) = True"
| "is_log _ = False"

text \<open>The driver and kernel calls of a run, without the log lines.\<close>

definition hw_events :: "world \<Rightarrow> event list" where
  "hw_events w = filter (\<lambda>e. \<not> is_log e) (trace w)"

subsection \<open>Driver calls\<close>

text \<open>\<^verbatim>\<open>PWM_PERIOD\<close> is \<^verbatim>\<open>PWM_MSEC(20)\<close>, twenty milliseconds in nanoseconds.\<close>

definition PWM_PERIOD :: u32 where
  "PWM_PERIOD = 20000000"

definition ENODEV :: int where
  "ENODEV = 19"

definition BLINKY_LED :: dk_led where
  "BLINKY_LED = DK_LED2"

definition pwm_is_ready_dt :: "world \<Rightarrow> bool" where
  "pwm_is_ready_dt w = pwm_ready w"

definition pwm_set_dt :: "u32 \<Rightarrow> u32 \<Rightarrow> world \<Rightarrow> int \<times> world" where
  "pwm_set_dt period pulse w =
     (pwm_ret w (pwm_calls w),
      emit (PwmSet period pulse) (w\<lparr>pwm_calls := Suc (pwm_calls w)\<rparr>))"

definition k_msleep :: "nat \<Rightarrow> world \<Rightarrow> world" where
  "k_msleep ms w = emit (Sleep ms) w"

definition dk_set_led :: "dk_led \<Rightarrow> bool \<Rightarrow> world \<Rightarrow> int \<times> world" where
  "dk_set_led led val w =
     (led_ret w (led_calls w),
      emit (SetLed led val) (w\<lparr>led_calls := Suc (led_calls w)\<rparr>))"

definition bt_le_adv_start :: "world \<Rightarrow> int \<times> world" where
  "bt_le_adv_start w =
     (adv_ret w (adv_calls w),
      emit AdvStart (w\<lparr>adv_calls := Suc (adv_calls w)\<rparr>))"

section \<open>main.c: the servo\<close>

definition set_motor_angle :: "u32 \<Rightarrow> world \<Rightarrow> int \<times> world" where
  "set_motor_angle pulse_width_ns w =
     (let (err, w1) = pwm_set_dt PWM_PERIOD pulse_width_ns w
      in if err \<noteq> 0 then (err, log_msg LOG_ERR ''pwm_set_dt returned %d'' w1)
         else (err, w1))"

definition run_servo_cycle :: "world \<Rightarrow> int \<times> world" where
  "run_servo_cycle w =
     (if \<not> pwm_is_ready_dt w
      then (- ENODEV, log_msg LOG_ERR ''Error: PWM device %s is not ready'' w)
      else
        let w1 = log_msg LOG_INF ''Starting servo cycle (22.5 -> 157.5 -> 22.5)'' w;
            (err, w2) = set_motor_angle 1125000 w1
        in if err \<noteq> 0
           then (err, log_msg LOG_ERR ''Error setting min pulse, err %d'' w2)
           else
             let w3 = k_msleep 50 w2;
                 (err, w4) = set_motor_angle 1875000 w3
             in if err \<noteq> 0
                then (err, log_msg LOG_ERR ''Error setting max pulse, err %d'' w4)
                else
                  let w5 = k_msleep 750 w4;
                      (err, w6) = set_motor_angle 1125000 w5
                  in if err \<noteq> 0
                     then (err, log_msg LOG_ERR ''Error returning to initial, err %d'' w6)
                     else (0, log_msg LOG_INF ''Servo cycle complete'' w6))"

section \<open>main.c: advertising\<close>

definition adv_work_handler :: "world \<Rightarrow> world" where
  "adv_work_handler w =
     (let (err, w1) = bt_le_adv_start w
      in if err \<noteq> 0
         then log_msg LOG_ERR ''Advertising failed to start (err %d)'' w1
         else log_msg LOG_INF ''Advertising successfully started'' w1)"

text \<open>
  Modelled from the spec: the kernel's work queue (\<^verbatim>\<open>k_work_submit\<close> and the thread
  that runs submitted items) is not under src/. Section 4.4 of the specification says
  that \<^verbatim>\<open>requestStart()\<close> submits the work item for execution outside the caller's
  context and that, if a submission is already pending, the queue discipline coalesces
  it. So a submission appends the item to the queue unless it is already there (result 1
  when queued, 0 when it was pending), and the queue's thread takes the oldest item off
  the queue and calls its handler.
\<close>

definition k_work_submit :: "work \<Rightarrow> world \<Rightarrow> int \<times> world" where
  "k_work_submit wk w =
     (if wk \<in> set (sys_work_q w) then (0, w)
      else (1, w\<lparr>sys_work_q := sys_work_q w @ [wk]\<rparr>))"

text \<open>\<^verbatim>\<open>k_work_init(&adv_work, adv_work_handler)\<close> binds the item to its handler.\<close>

fun work_handler :: "work \<Rightarrow> world \<Rightarrow> world" where
  "work_handler Adv_work = adv_work_handler"

definition work_queue_run :: "world \<Rightarrow> world" where
  "work_queue_run w =
     (case sys_work_q w of
        [] \<Rightarrow> w
      | wk # rest \<Rightarrow> work_handler wk (w\<lparr>sys_work_q := rest\<rparr>))"

definition advertising_start :: "world \<Rightarrow> world" where
  "advertising_start w = snd (k_work_submit Adv_work w)"

definition recycled_cb :: "world \<Rightarrow> world" where
  "recycled_cb w =
     advertising_start (log_msg LOG_INF ''Connection object recycled. Disconnect complete!'' w)"

definition on_connected :: "u8 \<Rightarrow> world \<Rightarrow> world" where
  "on_connected err w =
     (if err \<noteq> 0 then log_msg LOG_ERR ''Connection failed (err %u)'' w
      else log_msg LOG_INF ''Connected'' w)"

definition on_disconnected :: "u8 \<Rightarrow> world \<Rightarrow> world" where
  "on_disconnected reason w = log_msg LOG_INF ''Disconnected (reason %u)'' w"

text \<open>
  What can happen to the advertising work item: a direct request, a recycled connection
  object, and a turn of the work queue's thread.
\<close>

datatype stimulus = RequestStart | Recycled | RunWork

fun stimulate :: "stimulus \<Rightarrow> world \<Rightarrow> world" where
  "stimulate RequestStart w = advertising_start w"
| "stimulate Recycled w = recycled_cb w"
| "stimulate RunWork w = work_queue_run w"

fun deliver :: "stimulus list \<Rightarrow> world \<Rightarrow> world" where
  "deliver [] w = w"
| "deliver (s # ss) w = deliver ss (stimulate s w)"

fun is_request :: "stimulus \<Rightarrow> bool" where
  "is_request RunWork = False"
| "is_request _ = True"

definition adv_starts :: "world \<Rightarrow> nat" where
  "adv_starts w = length (filter (\<lambda>e. e = AdvStart) (trace w))"

section \<open>main.c: the application callbacks and the button\<close>

text \<open>
  \<^verbatim>\<open>PWM_SERVO_MIN_PULSE_WIDTH\<close> is the devicetree property \<^verbatim>\<open>min_pulse\<close> of the servo
  node. The devicetree is not among the sources, so the value is the parameter
  \<open>min_pulse\<close>; the comment beside the macro gives it as 1 ms.
\<close>

definition app_led_cb :: "u32 \<Rightarrow> bool \<Rightarrow> world \<Rightarrow> world" where
  "app_led_cb min_pulse led_state w =
     (let w1 = log_msg LOG_INF ''LED characteristic write: %s'' w;
          w2 = (if led_state
                then let (err, wa) = run_servo_cycle w1
                     in if err \<noteq> 0
                        then log_msg LOG_ERR ''Failed to run servo cycle (err %d)'' wa
                        else wa
                else let (err, wa) = set_motor_angle min_pulse w1
                     in if err \<noteq> 0
                        then log_msg LOG_ERR ''Failed to set servo angle (err %d)'' wa
                        else wa);
          (err, w3) = dk_set_led BLINKY_LED led_state w2;
          w4 = (if err \<noteq> 0 then log_msg LOG_ERR ''Failed to set BLINKY_LED (err %d)'' w3
                else w3)
      in log_msg LOG_INF ''Set BLINKY_LED (DK_LED2) to %s'' w4)"

definition app_button_cb :: "world \<Rightarrow> bool \<times> world" where
  "app_button_cb w =
     (app_button_state w, log_msg LOG_INF ''Button characteristic read: %s'' w)"

text \<open>
  \<^verbatim>\<open>DK_BTN1_MSK\<close> comes from the board library, which is not among the sources; it is
  the parameter \<open>btn1_msk\<close>.
\<close>

definition button_handler :: "u32 \<Rightarrow> u32 \<Rightarrow> u32 \<Rightarrow> world \<Rightarrow> world" where
  "button_handler btn1_msk button_state has_changed w =
     (if (has_changed AND button_state) AND btn1_msk \<noteq> 0
      then (log_msg LOG_INF ''Button 1 pressed'' w)\<lparr>app_button_state := True\<rparr>
      else if has_changed AND btn1_msk \<noteq> 0
      then w\<lparr>app_button_state := False\<rparr>
      else w)"

fun button_events :: "u32 \<Rightarrow> (u32 \<times> u32) list \<Rightarrow> world \<Rightarrow> world" where
  "button_events m [] w = w"
| "button_events m ((st, ch) # es) w = button_events m es (button_handler m st ch w)"

section \<open>The LBS service module\<close>

datatype att_err =
    BT_ATT_ERR_INVALID_OFFSET
  | BT_ATT_ERR_INVALID_ATTRIBUTE_LEN
  | BT_ATT_ERR_VALUE_NOT_ALLOWED

record my_lbs_cb =
  led_cb :: "(bool \<Rightarrow> world \<Rightarrow> world) option"
  button_cb :: "(world \<Rightarrow> bool \<times> world) option"

record lbs =
  button_state :: bool
  lbs_cb :: my_lbs_cb

text \<open>
  \<^verbatim>\<open>write_led\<close> returns \<^verbatim>\<open>BT_GATT_ERR(e)\<close>, here \<open>Inl e\<close>, or the number of bytes
  accepted. \<open>buf\<close> holds the bytes written and \<open>len\<close> is their number. The connection,
  the attribute and the flags are only logged.
\<close>

definition write_led :: "lbs \<Rightarrow> u8 list \<Rightarrow> u16 \<Rightarrow> world \<Rightarrow> (att_err + nat) \<times> lbs \<times> world" where
  "write_led s buf offset w =
     (let len = length buf;
          w1 = log_msg LOG_INF ''Attribute write, handle: %u, conn: %p, len: %u'' w
      in if len \<noteq> 1
         then (Inl BT_ATT_ERR_INVALID_ATTRIBUTE_LEN, s,
               log_msg LOG_ERR ''Write LED: Incorrect data length: %u'' w1)
         else if offset \<noteq> 0
         then (Inl BT_ATT_ERR_INVALID_OFFSET, s,
               log_msg LOG_ERR ''Write LED: Incorrect data offset: %u'' w1)
         else
           (case led_cb (lbs_cb s) of
              Some cb \<Rightarrow>
                let val = hd buf;
                    w2 = log_msg LOG_INF ''LED write value: 0x%02x (%s)'' w1
                in if val = 0x00 \<or> val = 0x01
                   then (Inr len, s,
                         log_msg LOG_INF ''Called LED callback with state: %s''
                           (cb (val \<noteq> 0) w2))
                   else (Inl BT_ATT_ERR_VALUE_NOT_ALLOWED, s,
                         log_msg LOG_ERR ''Write LED: Incorrect value: 0x%02x'' w2)
            | None \<Rightarrow> (Inr len, s, log_msg LOG_ERR ''No LED callback registered'' w1)))"

text \<open>
  Modelled from the spec: the generic attribute-read helper (\<^verbatim>\<open>bt_gatt_attr_read\<close>)
  is not under src/. The specification delegates the handling of the offset to it
  (sections 3 and 4.1) and has it return the stored value from the given offset. So an
  offset beyond the value is refused with Invalid Offset, and otherwise the bytes of the
  value from the offset on are returned, as many as the buffer holds.
\<close>

definition bt_gatt_attr_read :: "u16 \<Rightarrow> u16 \<Rightarrow> u8 list \<Rightarrow> att_err + u8 list" where
  "bt_gatt_attr_read buf_len offset val =
     (if unat offset > length val then Inl BT_ATT_ERR_INVALID_OFFSET
      else Inr (take (unat buf_len) (drop (unat offset) val)))"

definition bool_byte :: "bool \<Rightarrow> u8" where
  "bool_byte b = (if b then 1 else 0)"

text \<open>
  \<^verbatim>\<open>read_button\<close> returns the error of the helper or the bytes copied to the reader's
  buffer (the C function returns their number). The helper is the parameter
  \<open>attr_read\<close>; it is given the buffer length, the offset and the one byte of
  \<^verbatim>\<open>button_state\<close> that \<^verbatim>\<open>attr->user_data\<close> points to.
\<close>

definition read_button ::
  "(u16 \<Rightarrow> u16 \<Rightarrow> u8 list \<Rightarrow> att_err + u8 list) \<Rightarrow> lbs \<Rightarrow> u16 \<Rightarrow> u16 \<Rightarrow> world
     \<Rightarrow> (att_err + u8 list) \<times> lbs \<times> world" where
  "read_button attr_read s len offset w =
     (let w1 = log_msg LOG_INF ''Attribute read, handle: %u, conn: %p'' w
      in case button_cb (lbs_cb s) of
           Some cb \<Rightarrow>
             let (b, w2) = cb w1;
                 s1 = s\<lparr>button_state := b\<rparr>;
                 w3 = log_msg LOG_INF ''Button state read: %s'' w2
             in (attr_read len offset [bool_byte (button_state s1)], s1, w3)
         | None \<Rightarrow> (Inr [], s, log_msg LOG_ERR ''No button callback registered'' w1))"

definition my_lbs_init :: "my_lbs_cb option \<Rightarrow> lbs \<Rightarrow> world \<Rightarrow> int \<times> lbs \<times> world" where
  "my_lbs_init callbacks s w =
     (let w1 = log_msg LOG_INF ''Initializing LBS service'' w
      in case callbacks of
           Some c \<Rightarrow>
             (0,
              s\<lparr>lbs_cb := (lbs_cb s)\<lparr>led_cb := led_cb c, button_cb := button_cb c\<rparr>\<rparr>,
              log_msg LOG_INF ''LBS callbacks registered: led_cb=%p, button_cb=%p'' w1)
         | None \<Rightarrow> (0, s, log_msg LOG_ERR ''No LBS callbacks provided'' w1))"

definition app_callbacks :: "u32 \<Rightarrow> my_lbs_cb" where
  "app_callbacks min_pulse = \<lparr>led_cb = Some (app_led_cb min_pulse), button_cb = Some app_button_cb\<rparr>"

subsection \<open>Concrete states\<close>

text \<open>A board on which every driver call succeeds, before anything has happened.\<close>

definition good_world :: world where
  "good_world = \<lparr>app_button_state = False, pwm_ready = True, pwm_ret = (\<lambda>_. 0), pwm_calls = 0,
     led_ret = (\<lambda>_. 0), led_calls = 0, adv_ret = (\<lambda>_. 0), adv_calls = 0,
     sys_work_q = [], trace = []\<rparr>"

text \<open>A board whose PWM device is not ready and whose LED driver fails.\<close>

definition dead_world :: world where
  "dead_world = good_world\<lparr>pwm_ready := False, led_ret := (\<lambda>_. - 5)\<rparr>"

text \<open>A ready board whose first PWM command succeeds and whose second fails with -5.\<close>

definition flaky_world :: world where
  "flaky_world = good_world\<lparr>pwm_ret := (\<lambda>n. if n = 1 then - 5 else 0)\<rparr>"

text \<open>The same board with button 1 held down.\<close>

definition pressed_world :: world where
  "pressed_world = good_world\<lparr>app_button_state := True\<rparr>"

text \<open>The service module before and after \<^verbatim>\<open>my_lbs_init\<close>.\<close>

definition lbs_unregistered :: lbs where
  "lbs_unregistered = \<lparr>button_state = False, lbs_cb = \<lparr>led_cb = None, button_cb = None\<rparr>\<rparr>"

definition lbs_registered :: "u32 \<Rightarrow> lbs" where
  "lbs_registered min_pulse =
     fst (snd (my_lbs_init (Some (app_callbacks min_pulse)) lbs_unregistered good_world))"

section \<open>Facts about the driver calls and the callbacks\<close>

lemmas world_defs = good_world_def dead_world_def flaky_world_def lbs_unregistered_def
  lbs_registered_def my_lbs_init_def app_callbacks_def

lemma hw_events_emit [simp]:
  "hw_events (emit e w) = (if is_log e then hw_events w else hw_events w @ [e])"
  by (simp add: hw_events_def emit_def)

lemma hw_events_log_msg [simp]: "hw_events (log_msg l m w) = hw_events w"
  by (simp add: log_msg_def)

lemma hw_events_calls [simp]:
  "hw_events (w\<lparr>pwm_calls := n\<rparr>) = hw_events w"
  "hw_events (w\<lparr>led_calls := n\<rparr>) = hw_events w"
  "hw_events (w\<lparr>adv_calls := n\<rparr>) = hw_events w"
  "hw_events (w\<lparr>sys_work_q := q\<rparr>) = hw_events w"
  "hw_events (w\<lparr>app_button_state := b\<rparr>) = hw_events w"
  by (simp_all add: hw_events_def)

lemma emit_fields [simp]:
  "pwm_ready (emit e w) = pwm_ready w"
  "pwm_ret (emit e w) = pwm_ret w"
  "pwm_calls (emit e w) = pwm_calls w"
  "led_ret (emit e w) = led_ret w"
  "led_calls (emit e w) = led_calls w"
  "adv_ret (emit e w) = adv_ret w"
  "adv_calls (emit e w) = adv_calls w"
  "sys_work_q (emit e w) = sys_work_q w"
  "app_button_state (emit e w) = app_button_state w"
  by (simp_all add: emit_def)

lemma log_msg_fields [simp]:
  "pwm_ready (log_msg l m w) = pwm_ready w"
  "pwm_ret (log_msg l m w) = pwm_ret w"
  "pwm_calls (log_msg l m w) = pwm_calls w"
  "led_ret (log_msg l m w) = led_ret w"
  "led_calls (log_msg l m w) = led_calls w"
  "adv_ret (log_msg l m w) = adv_ret w"
  "adv_calls (log_msg l m w) = adv_calls w"
  "sys_work_q (log_msg l m w) = sys_work_q w"
  "app_button_state (log_msg l m w) = app_button_state w"
  by (simp_all add: log_msg_def)

text \<open>One position command: the driver is called once, whatever it returns.\<close>

lemma set_motor_angle_hw:
  "hw_events (snd (set_motor_angle p w)) = hw_events w @ [PwmSet PWM_PERIOD p]"
  by (simp add: set_motor_angle_def pwm_set_dt_def)

lemma run_servo_cycle_not_ready:
  "\<not> pwm_ready w \<Longrightarrow> fst (run_servo_cycle w) = - ENODEV \<and> hw_events (snd (run_servo_cycle w)) = hw_events w"
  by (simp add: run_servo_cycle_def pwm_is_ready_dt_def)

lemma run_servo_cycle_fail1:
  "pwm_ready w \<Longrightarrow> pwm_ret w (pwm_calls w) \<noteq> 0 \<Longrightarrow>
   fst (run_servo_cycle w) = pwm_ret w (pwm_calls w) \<and>
   hw_events (snd (run_servo_cycle w)) = hw_events w @ [PwmSet PWM_PERIOD 1125000]"
  by (simp add: run_servo_cycle_def pwm_is_ready_dt_def set_motor_angle_def pwm_set_dt_def)

lemma run_servo_cycle_fail2:
  "pwm_ready w \<Longrightarrow> pwm_ret w (pwm_calls w) = 0 \<Longrightarrow> pwm_ret w (Suc (pwm_calls w)) \<noteq> 0 \<Longrightarrow>
   fst (run_servo_cycle w) = pwm_ret w (Suc (pwm_calls w)) \<and>
   hw_events (snd (run_servo_cycle w)) =
     hw_events w @ [PwmSet PWM_PERIOD 1125000, Sleep 50, PwmSet PWM_PERIOD 1875000]"
  by (simp add: run_servo_cycle_def pwm_is_ready_dt_def set_motor_angle_def pwm_set_dt_def k_msleep_def)

lemma run_servo_cycle_reach3:
  "pwm_ready w \<Longrightarrow> pwm_ret w (pwm_calls w) = 0 \<Longrightarrow> pwm_ret w (Suc (pwm_calls w)) = 0 \<Longrightarrow>
   fst (run_servo_cycle w) = pwm_ret w (Suc (Suc (pwm_calls w))) \<and>
   hw_events (snd (run_servo_cycle w)) =
     hw_events w @ [PwmSet PWM_PERIOD 1125000, Sleep 50, PwmSet PWM_PERIOD 1875000, Sleep 750,
                    PwmSet PWM_PERIOD 1125000]"
  by (simp add: run_servo_cycle_def pwm_is_ready_dt_def set_motor_angle_def pwm_set_dt_def k_msleep_def Let_def)

lemma app_led_cb_on_hw:
  "hw_events (app_led_cb mp True w) = hw_events (snd (run_servo_cycle w1)) @ [SetLed BLINKY_LED True]"
  if "w1 = log_msg LOG_INF ''LED characteristic write: %s'' w"
  using that by (simp add: app_led_cb_def dk_set_led_def Let_def case_prod_beta)

lemma app_led_cb_off_hw:
  "hw_events (app_led_cb mp False w) = hw_events w @ [PwmSet PWM_PERIOD mp, SetLed BLINKY_LED False]"
  by (simp add: app_led_cb_def dk_set_led_def Let_def case_prod_beta set_motor_angle_hw)

lemma write_led_accept:
  "led_cb (lbs_cb s) = Some cb \<Longrightarrow> v = 0 \<or> v = 1 \<Longrightarrow>
   write_led s [v] 0 w =
     (Inr 1, s,
      log_msg LOG_INF ''Called LED callback with state: %s''
        (cb (v \<noteq> 0)
           (log_msg LOG_INF ''LED write value: 0x%02x (%s)''
              (log_msg LOG_INF ''Attribute write, handle: %u, conn: %p, len: %u'' w))))"
  by (auto simp add: write_led_def)


lemma write_led_no_callback:
  "led_cb (lbs_cb s) = None \<Longrightarrow>
   write_led s [v] 0 w =
     (Inr 1, s,
      w\<lparr>trace := trace w @
         [Log LOG_INF ''Attribute write, handle: %u, conn: %p, len: %u'',
          Log LOG_ERR ''No LED callback registered'']\<rparr>)"
  by (simp add: write_led_def log_msg_def emit_def)

lemma lbs_registered_led_cb: "led_cb (lbs_cb (lbs_registered mp)) = Some (app_led_cb mp)"
  by (simp add: world_defs)

lemma lbs_registered_button_cb: "button_cb (lbs_cb (lbs_registered mp)) = Some app_button_cb"
  by (simp add: world_defs)

lemma lbs_unregistered_cb:
  "led_cb (lbs_cb lbs_unregistered) = None" "button_cb (lbs_cb lbs_unregistered) = None"
  by (simp_all add: world_defs)

lemma write_led_hw:
  "led_cb (lbs_cb s) = Some cb \<Longrightarrow> v = 0 \<or> v = 1 \<Longrightarrow>
   hw_events (snd (snd (write_led s [v] 0 w))) =
   hw_events (cb (v \<noteq> 0)
           (log_msg LOG_INF ''LED write value: 0x%02x (%s)''
              (log_msg LOG_INF ''Attribute write, handle: %u, conn: %p, len: %u'' w)))"
  by (simp add: write_led_accept)

lemma good_world_fields [simp]:
  "pwm_ready good_world" "pwm_ret good_world n = 0" "pwm_calls good_world = 0"
  "hw_events good_world = []" "trace good_world = []" "sys_work_q good_world = []"
  "led_ret good_world n = 0"
  by (simp_all add: good_world_def hw_events_def)

lemma dead_world_fields [simp]:
  "\<not> pwm_ready dead_world" "hw_events dead_world = []" "led_ret dead_world n = - 5"
  by (simp_all add: dead_world_def good_world_def hw_events_def)

lemma flaky_world_fields [simp]:
  "pwm_ready flaky_world" "pwm_ret flaky_world n = (if n = 1 then - 5 else 0)"
  "pwm_calls flaky_world = 0" "hw_events flaky_world = []"
  by (simp_all add: flaky_world_def good_world_def hw_events_def)

lemma lbs_registered_button_state: "\<not> button_state (lbs_registered mp)"
  by (simp add: world_defs)

section \<open>Writes to the LED characteristic\<close>

subsection \<open>Length and offset\<close>

text \<open>
  Claim C2. A write whose length is not 1 is refused with Invalid Attribute Length,
  whatever its offset; a write of length 1 at a nonzero offset is refused with Invalid
  Offset. In both cases the service state is returned as it was and the world differs
  from the one before by two log lines only, whatever callbacks are registered: no
  callback has run.
\<close>

theorem write_led_rejects_length_then_offset:
  "(length buf \<noteq> 1 \<longrightarrow>
      write_led s buf offset w =
        (Inl BT_ATT_ERR_INVALID_ATTRIBUTE_LEN, s,
         w\<lparr>trace := trace w @
            [Log LOG_INF ''Attribute write, handle: %u, conn: %p, len: %u'',
             Log LOG_ERR ''Write LED: Incorrect data length: %u'']\<rparr>))
   \<and> (length buf = 1 \<and> offset \<noteq> 0 \<longrightarrow>
      write_led s buf offset w =
        (Inl BT_ATT_ERR_INVALID_OFFSET, s,
         w\<lparr>trace := trace w @
            [Log LOG_INF ''Attribute write, handle: %u, conn: %p, len: %u'',
             Log LOG_ERR ''Write LED: Incorrect data offset: %u'']\<rparr>))"
  by (simp add: write_led_def log_msg_def emit_def)

theorem write_led_rejects_length_then_offset_witness:
  "fst (write_led (lbs_registered 1000000) [1, 0] 3 good_world) = Inl BT_ATT_ERR_INVALID_ATTRIBUTE_LEN
   \<and> fst (write_led (lbs_registered 1000000) [] 0 good_world) = Inl BT_ATT_ERR_INVALID_ATTRIBUTE_LEN
   \<and> fst (write_led (lbs_registered 1000000) [1] 3 good_world) = Inl BT_ATT_ERR_INVALID_OFFSET
   \<and> hw_events (snd (snd (write_led (lbs_registered 1000000) [1, 0] 3 good_world))) = []
   \<and> hw_events (snd (snd (write_led (lbs_registered 1000000) [1] 3 good_world))) = []
   \<and> fst (snd (write_led (lbs_registered 1000000) [1] 3 good_world)) = lbs_registered 1000000"
  using write_led_rejects_length_then_offset
      [where buf = "[1, 0]" and s = "lbs_registered 1000000" and offset = 3 and w = good_world]
    write_led_rejects_length_then_offset
      [where buf = "[]" and s = "lbs_registered 1000000" and offset = 0 and w = good_world]
    write_led_rejects_length_then_offset
      [where buf = "[1]" and s = "lbs_registered 1000000" and offset = 3 and w = good_world]
  by (simp add: hw_events_def good_world_def)

subsection \<open>Values outside 0 and 1\<close>

text \<open>
  Without a registered LED callback \<^verbatim>\<open>write_led\<close> never looks at the byte: a
  write of 5 is accepted.
\<close>

theorem write_led_bad_value_counterexample:
  "fst (write_led lbs_unregistered [5] 0 good_world) = Inr 1 \<and>
   fst (write_led lbs_unregistered [5] 0 good_world) \<noteq> Inl BT_ATT_ERR_VALUE_NOT_ALLOWED"
  by (simp add: write_led_no_callback lbs_unregistered_cb)

text \<open>
  Claim C1, amended. For a write of length 1 at offset 0 whose byte is neither 0 nor 1:
  with an LED callback registered the write is refused with Value Not Allowed, the
  callback does not run and nothing but three log lines is added to the world; with no
  LED callback registered the byte is not checked, the write is accepted with result 1
  and the missing callback is logged.
\<close>

theorem write_led_bad_value:
  "v \<noteq> 0 \<and> v \<noteq> 1 \<longrightarrow>
     (led_cb (lbs_cb s) = Some cb \<longrightarrow>
        write_led s [v] 0 w =
          (Inl BT_ATT_ERR_VALUE_NOT_ALLOWED, s,
           w\<lparr>trace := trace w @
              [Log LOG_INF ''Attribute write, handle: %u, conn: %p, len: %u'',
               Log LOG_INF ''LED write value: 0x%02x (%s)'',
               Log LOG_ERR ''Write LED: Incorrect value: 0x%02x'']\<rparr>))
     \<and> (led_cb (lbs_cb s) = None \<longrightarrow>
        write_led s [v] 0 w =
          (Inr 1, s,
           w\<lparr>trace := trace w @
              [Log LOG_INF ''Attribute write, handle: %u, conn: %p, len: %u'',
               Log LOG_ERR ''No LED callback registered'']\<rparr>))"
  by (simp add: write_led_def log_msg_def emit_def)

theorem write_led_bad_value_witness:
  "write_led (lbs_registered 1000000) [5] 0 good_world =
     (Inl BT_ATT_ERR_VALUE_NOT_ALLOWED, lbs_registered 1000000,
      good_world\<lparr>trace := trace good_world @
         [Log LOG_INF ''Attribute write, handle: %u, conn: %p, len: %u'',
          Log LOG_INF ''LED write value: 0x%02x (%s)'',
          Log LOG_ERR ''Write LED: Incorrect value: 0x%02x'']\<rparr>)
   \<and> hw_events (snd (snd (write_led (lbs_registered 1000000) [5] 0 good_world))) = []
   \<and> fst (write_led lbs_unregistered [5] 0 good_world) = Inr 1"
  using write_led_bad_value
      [where v = 5 and s = "lbs_registered 1000000" and cb = "app_led_cb 1000000" and w = good_world]
    write_led_bad_value [where v = 5 and s = lbs_unregistered and w = good_world]
  by (simp add: lbs_registered_led_cb lbs_unregistered_cb hw_events_def good_world_def)

subsection \<open>The result of an accepted write\<close>

text \<open>
  Claim C9. A write of length 1 at offset 0 with byte 0 or 1 and an LED callback
  registered returns 1 and leaves the service state alone, for every callback and every
  world: the callback has no result, so a PWM device that is not ready, a failing
  position command or a failing LED driver cannot change what the peer is told.
\<close>

theorem write_led_result_ignores_hardware:
  "led_cb (lbs_cb s) = Some cb \<and> (v = 0 \<or> v = 1) \<longrightarrow>
     fst (write_led s [v] 0 w) = Inr 1 \<and> fst (snd (write_led s [v] 0 w)) = s"
  by (auto simp add: write_led_def)

theorem write_led_result_ignores_hardware_witness:
  "fst (write_led (lbs_registered 1000000) [1] 0 dead_world) = Inr 1
   \<and> fst (write_led (lbs_registered 1000000) [0] 0 dead_world) = Inr 1
   \<and> fst (write_led (lbs_registered 1000000) [1] 0 flaky_world) = Inr 1"
  using write_led_result_ignores_hardware
      [where s = "lbs_registered 1000000" and cb = "app_led_cb 1000000" and v = 1 and w = dead_world]
    write_led_result_ignores_hardware
      [where s = "lbs_registered 1000000" and cb = "app_led_cb 1000000" and v = 0 and w = dead_world]
    write_led_result_ignores_hardware
      [where s = "lbs_registered 1000000" and cb = "app_led_cb 1000000" and v = 1 and w = flaky_world]
  by (simp add: lbs_registered_led_cb)

subsection \<open>Writing 1: the forward sequence\<close>

text \<open>
  On a board whose PWM device is ready, whose first position command succeeds and whose
  second one fails, \<^verbatim>\<open>run_servo_cycle\<close> stops after the second command: the write
  of 1 is accepted, the hold of 750 ms and the return to 1125000 ns are never issued, and
  the LED is set all the same.
\<close>

theorem write_led_on_counterexample:
  "fst (write_led (lbs_registered 1000000) [1] 0 flaky_world) = Inr 1
   \<and> hw_events (snd (snd (write_led (lbs_registered 1000000) [1] 0 flaky_world))) =
       [PwmSet PWM_PERIOD 1125000, Sleep 50, PwmSet PWM_PERIOD 1875000, SetLed DK_LED2 True]
   \<and> hw_events (snd (snd (write_led (lbs_registered 1000000) [1] 0 flaky_world))) \<noteq>
       [PwmSet PWM_PERIOD 1125000, Sleep 50, PwmSet PWM_PERIOD 1875000, Sleep 750,
        PwmSet PWM_PERIOD 1125000, SetLed DK_LED2 True]"
  by (simp add: write_led_accept write_led_hw lbs_registered_led_cb app_led_cb_on_hw
        run_servo_cycle_fail2 BLINKY_LED_def)

text \<open>
  Claim C3, amended. With the application's LED callback registered, the PWM device ready
  (as it is once start-up has passed) and the first two position commands of the cycle
  succeeding, a write of 1 (length 1, offset 0) returns 1 and issues, in this order and with nothing in between but log lines: the
  position 1125000 ns, a hold of 50 ms, the position 1875000 ns, a hold of 750 ms, the
  position 1125000 ns again, and then the LED set to on.
\<close>

theorem write_led_on_runs_forward_sequence:
  "led_cb (lbs_cb s) = Some (app_led_cb min_pulse) \<and> pwm_ready w
     \<and> pwm_ret w (pwm_calls w) = 0 \<and> pwm_ret w (Suc (pwm_calls w)) = 0 \<longrightarrow>
   fst (write_led s [1] 0 w) = Inr 1
   \<and> hw_events (snd (snd (write_led s [1] 0 w))) =
       hw_events w @
       [PwmSet PWM_PERIOD 1125000, Sleep 50, PwmSet PWM_PERIOD 1875000, Sleep 750,
        PwmSet PWM_PERIOD 1125000, SetLed BLINKY_LED True]"
  by (simp add: write_led_accept app_led_cb_on_hw run_servo_cycle_reach3)

theorem write_led_on_runs_forward_sequence_witness:
  "fst (write_led (lbs_registered 1000000) [1] 0 good_world) = Inr 1
   \<and> hw_events (snd (snd (write_led (lbs_registered 1000000) [1] 0 good_world))) =
       [PwmSet 20000000 1125000, Sleep 50, PwmSet 20000000 1875000, Sleep 750,
        PwmSet 20000000 1125000, SetLed DK_LED2 True]"
  using write_led_on_runs_forward_sequence
      [where s = "lbs_registered 1000000" and min_pulse = 1000000 and w = good_world]
  by (simp add: lbs_registered_led_cb PWM_PERIOD_def BLINKY_LED_def)

subsection \<open>Writing 0: the reset\<close>

text \<open>
  The reset commands \<^verbatim>\<open>PWM_SERVO_MIN_PULSE_WIDTH\<close>, the forward sequence the literal
  1125000. With the 1 ms the source gives for the devicetree value the two differ.
\<close>

theorem write_led_off_counterexample:
  "hw_events (snd (snd (write_led (lbs_registered 1000000) [0] 0 good_world))) =
     [PwmSet PWM_PERIOD 1000000, SetLed DK_LED2 False]
   \<and> hw_events (snd (snd (write_led (lbs_registered 1000000) [1] 0 good_world))) =
     [PwmSet PWM_PERIOD 1125000, Sleep 50, PwmSet PWM_PERIOD 1875000, Sleep 750,
      PwmSet PWM_PERIOD 1125000, SetLed DK_LED2 True]
   \<and> hd (hw_events (snd (snd (write_led (lbs_registered 1000000) [0] 0 good_world)))) \<noteq>
     hd (hw_events (snd (snd (write_led (lbs_registered 1000000) [1] 0 good_world))))"
  by (simp add: write_led_hw lbs_registered_led_cb app_led_cb_on_hw app_led_cb_off_hw
        run_servo_cycle_reach3 BLINKY_LED_def)

text \<open>
  Claim C4, amended. With the application's LED callback registered, a write of 0
  (length 1, offset 0) returns 1 and issues exactly one position command, with the pulse
  width \<^verbatim>\<open>PWM_SERVO_MIN_PULSE_WIDTH\<close> that the devicetree declares, and then sets the
  LED to off. That pulse width is the position of the first and last steps of the forward
  sequence only when the devicetree declares 1125000 ns.
\<close>

theorem write_led_off_resets:
  "led_cb (lbs_cb s) = Some (app_led_cb min_pulse) \<longrightarrow>
   fst (write_led s [0] 0 w) = Inr 1
   \<and> hw_events (snd (snd (write_led s [0] 0 w))) =
       hw_events w @ [PwmSet PWM_PERIOD min_pulse, SetLed BLINKY_LED False]"
  by (simp add: write_led_accept app_led_cb_off_hw)

theorem write_led_off_resets_witness:
  "fst (write_led (lbs_registered 1000000) [0] 0 good_world) = Inr 1
   \<and> hw_events (snd (snd (write_led (lbs_registered 1000000) [0] 0 good_world))) =
       [PwmSet 20000000 1000000, SetLed DK_LED2 False]"
  using write_led_off_resets
      [where s = "lbs_registered 1000000" and min_pulse = 1000000 and w = good_world]
  by (simp add: lbs_registered_led_cb PWM_PERIOD_def BLINKY_LED_def)

section \<open>The forward sequence stops at the first failure\<close>

text \<open>
  Claim C6. On a ready device, when a position command of \<^verbatim>\<open>run_servo_cycle\<close> fails,
  the function returns the code of that command, which is the first failure, and has
  issued the commands up to and including the failing one and nothing after it: no later
  position, no later hold, and no second attempt at the failed position.
\<close>

theorem run_servo_cycle_fail_fast:
  "pwm_ready w \<longrightarrow>
     (pwm_ret w (pwm_calls w) \<noteq> 0 \<longrightarrow>
        fst (run_servo_cycle w) = pwm_ret w (pwm_calls w)
        \<and> hw_events (snd (run_servo_cycle w)) = hw_events w @ [PwmSet PWM_PERIOD 1125000])
     \<and> (pwm_ret w (pwm_calls w) = 0 \<and> pwm_ret w (pwm_calls w + 1) \<noteq> 0 \<longrightarrow>
        fst (run_servo_cycle w) = pwm_ret w (pwm_calls w + 1)
        \<and> hw_events (snd (run_servo_cycle w)) =
            hw_events w @ [PwmSet PWM_PERIOD 1125000, Sleep 50, PwmSet PWM_PERIOD 1875000])
     \<and> (pwm_ret w (pwm_calls w) = 0 \<and> pwm_ret w (pwm_calls w + 1) = 0
          \<and> pwm_ret w (pwm_calls w + 2) \<noteq> 0 \<longrightarrow>
        fst (run_servo_cycle w) = pwm_ret w (pwm_calls w + 2)
        \<and> hw_events (snd (run_servo_cycle w)) =
            hw_events w @ [PwmSet PWM_PERIOD 1125000, Sleep 50, PwmSet PWM_PERIOD 1875000,
                           Sleep 750, PwmSet PWM_PERIOD 1125000])"
  using run_servo_cycle_fail1 [of w] run_servo_cycle_fail2 [of w] run_servo_cycle_reach3 [of w]
  by simp

theorem run_servo_cycle_fail_fast_witness:
  "fst (run_servo_cycle flaky_world) = - 5
   \<and> hw_events (snd (run_servo_cycle flaky_world)) =
       [PwmSet 20000000 1125000, Sleep 50, PwmSet 20000000 1875000]"
  using run_servo_cycle_fail_fast [where w = flaky_world]
  by (simp add: PWM_PERIOD_def)

section \<open>The button handler\<close>

lemma and_bit_mask_word:
  "(x AND 2 ^ k = 0) = (\<not> bit x k)" for x :: u32
  by (rule and_exp_eq_0_iff_not_bit)

lemma bit_mask_self: "k < 32 \<Longrightarrow> bit (2 ^ k :: u32) k"
  by (simp add: bit_exp_iff)

lemma button_events_snoc:
  "button_events m (es @ [(st, ch)]) w = button_handler m st ch (button_events m es w)"
  by (induction m es w rule: button_events.induct) simp_all

text \<open>
  Claim C7. Let the mask of button 1 be the single bit \<open>k\<close>. After any sequence of
  events, an event with the changed bit and the level bit set leaves the stored boolean
  true; an event with the changed bit set and the level bit clear leaves it false; an
  event with the changed bit clear changes nothing at all, whatever the level. The
  sequence pressed-and-changed, then released-and-changed, reads true and then false.
\<close>

theorem button_handler_edges:
  "k < 32 \<longrightarrow>
     (bit ch k \<and> bit st k \<longrightarrow>
        app_button_state (button_events (push_bit k 1) (es @ [(st, ch)]) w) = True)
     \<and> (bit ch k \<and> \<not> bit st k \<longrightarrow>
        app_button_state (button_events (push_bit k 1) (es @ [(st, ch)]) w) = False)
     \<and> (\<not> bit ch k \<longrightarrow>
        button_events (push_bit k 1) (es @ [(st, ch)]) w = button_events (push_bit k 1) es w)
     \<and> app_button_state (button_events (push_bit k 1) [(push_bit k 1, push_bit k 1)] w) = True
     \<and> app_button_state
         (button_events (push_bit k 1) [(push_bit k 1, push_bit k 1), (0, push_bit k 1)] w) = False"
  by (simp add: button_events_snoc button_handler_def and_bit_mask_word bit_and_iff bit_mask_self)

theorem button_handler_edges_witness:
  "app_button_state (button_events 1 [(1, 1)] good_world) = True
   \<and> app_button_state (button_events 1 [(1, 1), (0, 1)] good_world) = False
   \<and> button_events 1 [(1, 1), (1, 0)] good_world = button_events 1 [(1, 1)] good_world
   \<and> button_events 1 [(1, 1), (0, 0)] good_world = button_events 1 [(1, 1)] good_world
   \<and> app_button_state (button_events 1 [(1, 1), (0, 0)] good_world) = True"
  using button_handler_edges [where k = 0 and es = "[]" and st = 1 and ch = 1 and w = good_world]
    button_handler_edges [where k = 0 and es = "[(1, 1)]" and st = 1 and ch = 0 and w = good_world]
    button_handler_edges [where k = 0 and es = "[(1, 1)]" and st = 0 and ch = 0 and w = good_world]
  by simp

section \<open>Advertising requests coalesce\<close>

lemma adv_starts_simps [simp]:
  "adv_starts (log_msg l m w) = adv_starts w"
  "adv_starts (w\<lparr>sys_work_q := q\<rparr>) = adv_starts w"
  by (simp_all add: adv_starts_def log_msg_def emit_def)

lemma work_unique: "wk = Adv_work"
  by (cases wk)

lemma work_queue_shape: "q = [] \<or> Adv_work \<in> set q" for q :: "work list"
proof (cases q)
  case Nil
  then show ?thesis by simp
next
  case (Cons wk rest)
  then show ?thesis using work_unique [of wk] by simp
qed

lemma advertising_start_queue:
  "sys_work_q (advertising_start w) = (if sys_work_q w = [] then [Adv_work] else sys_work_q w)"
  using work_queue_shape [of "sys_work_q w"]
  by (auto simp add: advertising_start_def k_work_submit_def)

lemma advertising_start_trace: "trace (advertising_start w) = trace w"
  by (simp add: advertising_start_def k_work_submit_def)

lemma advertising_start_adv_starts: "adv_starts (advertising_start w) = adv_starts w"
  by (simp add: adv_starts_def advertising_start_trace)

lemma recycled_cb_queue:
  "sys_work_q (recycled_cb w) = (if sys_work_q w = [] then [Adv_work] else sys_work_q w)"
  by (simp add: recycled_cb_def advertising_start_queue)

lemma recycled_cb_adv_starts: "adv_starts (recycled_cb w) = adv_starts w"
  by (simp add: recycled_cb_def advertising_start_adv_starts)

lemma adv_work_handler_queue: "sys_work_q (adv_work_handler w) = sys_work_q w"
  by (simp add: adv_work_handler_def bt_le_adv_start_def)

lemma adv_work_handler_adv_starts: "adv_starts (adv_work_handler w) = Suc (adv_starts w)"
  by (simp add: adv_work_handler_def bt_le_adv_start_def adv_starts_def log_msg_def emit_def)

lemma work_queue_run_Nil: "sys_work_q w = [] \<Longrightarrow> work_queue_run w = w"
  by (simp add: work_queue_run_def)

lemma work_queue_run_Cons:
  "sys_work_q w = wk # rest \<Longrightarrow> work_queue_run w = adv_work_handler (w\<lparr>sys_work_q := rest\<rparr>)"
  using work_unique [of wk] by (simp add: work_queue_run_def)

lemma work_queue_run_queue: "sys_work_q (work_queue_run w) = tl (sys_work_q w)"
  by (cases "sys_work_q w")
    (simp_all add: work_queue_run_Nil work_queue_run_Cons adv_work_handler_queue)

lemma work_queue_run_adv_starts:
  "adv_starts (work_queue_run w) = (if sys_work_q w = [] then adv_starts w else Suc (adv_starts w))"
  by (cases "sys_work_q w")
    (simp_all add: work_queue_run_Nil work_queue_run_Cons adv_work_handler_adv_starts)

lemma request_keeps_pending:
  "is_request x \<Longrightarrow> sys_work_q w = [Adv_work] \<Longrightarrow> sys_work_q (stimulate x w) = [Adv_work]"
  by (cases x) (simp_all add: advertising_start_queue recycled_cb_queue)

lemma request_makes_pending:
  "is_request x \<Longrightarrow> sys_work_q w = [] \<Longrightarrow> sys_work_q (stimulate x w) = [Adv_work]"
  by (cases x) (simp_all add: advertising_start_queue recycled_cb_queue)

lemma request_adv_starts:
  "is_request x \<Longrightarrow> adv_starts (stimulate x w) = adv_starts w"
  by (cases x) (simp_all add: advertising_start_adv_starts recycled_cb_adv_starts)

lemma requests_keep_pending:
  "list_all is_request es \<Longrightarrow> sys_work_q w = [Adv_work] \<Longrightarrow>
   sys_work_q (deliver es w) = [Adv_work] \<and> adv_starts (deliver es w) = adv_starts w"
  by (induction es arbitrary: w) (simp_all add: request_keeps_pending request_adv_starts)

lemma requests_coalesce:
  "list_all is_request es \<Longrightarrow> es \<noteq> [] \<Longrightarrow> sys_work_q w = [] \<Longrightarrow>
   sys_work_q (deliver es w) = [Adv_work] \<and> adv_starts (deliver es w) = adv_starts w"
  by (cases es) (simp_all add: requests_keep_pending request_makes_pending request_adv_starts)

lemma stimulate_queue_bound:
  "length (sys_work_q w) \<le> 1 \<Longrightarrow> length (sys_work_q (stimulate x w)) \<le> 1"
  by (cases x) (simp_all add: advertising_start_queue recycled_cb_queue work_queue_run_queue)

lemma deliver_queue_bound:
  "length (sys_work_q w) \<le> 1 \<Longrightarrow> length (sys_work_q (deliver es w)) \<le> 1"
proof (induction es arbitrary: w)
  case Nil
  then show ?case by simp
next
  case (Cons x es)
  from Cons.prems have "length (sys_work_q (stimulate x w)) \<le> 1"
    by (rule stimulate_queue_bound)
  then have "length (sys_work_q (deliver es (stimulate x w))) \<le> 1"
    by (rule Cons.IH)
  then show ?case by simp
qed

text \<open>
  Claim C8. Starting with nothing pending, after one or more requests (calls of
  \<^verbatim>\<open>advertising_start\<close> or recycled-connection callbacks, in any order) exactly one
  submission of the work item is pending and advertising has not been started; the next
  turn of the work queue starts advertising exactly once and empties the queue, and a
  further turn starts nothing. Along every sequence of requests and turns of the queue
  at most one submission is pending.
\<close>

theorem advertising_requests_coalesce:
  "(list_all is_request es \<and> es \<noteq> [] \<and> sys_work_q w = [] \<longrightarrow>
      sys_work_q (deliver es w) = [Adv_work]
      \<and> adv_starts (deliver es w) = adv_starts w
      \<and> adv_starts (work_queue_run (deliver es w)) = adv_starts w + 1
      \<and> sys_work_q (work_queue_run (deliver es w)) = []
      \<and> adv_starts (work_queue_run (work_queue_run (deliver es w))) = adv_starts w + 1)
   \<and> (length (sys_work_q w) \<le> 1 \<longrightarrow> length (sys_work_q (deliver ss w)) \<le> 1)"
  using requests_coalesce [of es w] deliver_queue_bound [of w ss]
  by (simp add: work_queue_run_adv_starts work_queue_run_queue)

theorem advertising_requests_coalesce_witness:
  "sys_work_q (deliver [RequestStart, Recycled, Recycled, RequestStart] good_world) = [Adv_work]
   \<and> adv_starts (deliver [RequestStart, Recycled, Recycled, RequestStart] good_world) = 0
   \<and> adv_starts (work_queue_run (deliver [RequestStart, Recycled, Recycled, RequestStart] good_world)) = 1
   \<and> length (sys_work_q (deliver [Recycled, Recycled, RunWork, RunWork, RequestStart] good_world)) \<le> 1"
  using advertising_requests_coalesce
    [where es = "[RequestStart, Recycled, Recycled, RequestStart]" and w = good_world
       and ss = "[Recycled, Recycled, RunWork, RunWork, RequestStart]"]
  by (simp add: adv_starts_def)

section \<open>Reads of the Button characteristic\<close>

lemma read_button_provider:
  "button_cb (lbs_cb s) = Some cb \<Longrightarrow>
   read_button attr_read s len offset w =
     (attr_read len offset
        [bool_byte (fst (cb (log_msg LOG_INF ''Attribute read, handle: %u, conn: %p'' w)))],
      s\<lparr>button_state := fst (cb (log_msg LOG_INF ''Attribute read, handle: %u, conn: %p'' w))\<rparr>,
      log_msg LOG_INF ''Button state read: %s''
        (snd (cb (log_msg LOG_INF ''Attribute read, handle: %u, conn: %p'' w))))"
  by (simp add: read_button_def Let_def case_prod_beta)

lemma read_button_no_provider:
  "button_cb (lbs_cb s) = None \<Longrightarrow>
   read_button attr_read s len offset w =
     (Inr [], s,
      w\<lparr>trace := trace w @
         [Log LOG_INF ''Attribute read, handle: %u, conn: %p'',
          Log LOG_ERR ''No button callback registered'']\<rparr>)"
  by (simp add: read_button_def log_msg_def emit_def)

lemma bt_gatt_attr_read_whole:
  "len \<noteq> 0 \<Longrightarrow> bt_gatt_attr_read len 0 [b] = Inr [b]"
  by (simp add: bt_gatt_attr_read_def unat_eq_0 take_Cons')

lemma app_button_cb_pressed:
  "fst (app_button_cb (log_msg l m pressed_world)) = True"
  by (simp add: app_button_cb_def pressed_world_def)

text \<open>
  A read at offset 2 is refused by the helper, and a read at offset 1 returns no byte,
  although the provider is registered and returns true.
\<close>

theorem read_button_counterexample:
  "fst (read_button bt_gatt_attr_read (lbs_registered 1000000) 1 2 pressed_world) =
     Inl BT_ATT_ERR_INVALID_OFFSET
   \<and> fst (read_button bt_gatt_attr_read (lbs_registered 1000000) 1 2 pressed_world) \<noteq> Inr [1]
   \<and> fst (read_button bt_gatt_attr_read (lbs_registered 1000000) 1 1 pressed_world) = Inr []"
  by (simp add: read_button_provider lbs_registered_button_cb bt_gatt_attr_read_def)

text \<open>
  Claim C5, amended. For a read at offset 0 into a buffer of at least one byte: if a
  provider is registered and returns true, the read stores true as the button value and
  returns exactly the one byte 0x01. For every read, if no provider is registered, the
  read returns no bytes, logs the missing callback as an error and leaves the stored
  button value as it was.
\<close>

theorem read_button_valid_request:
  "(button_cb (lbs_cb s) = Some cb
      \<and> fst (cb (log_msg LOG_INF ''Attribute read, handle: %u, conn: %p'' w)) = True
      \<and> offset = 0 \<and> len \<noteq> 0 \<longrightarrow>
        fst (read_button bt_gatt_attr_read s len offset w) = Inr [1]
        \<and> fst (snd (read_button bt_gatt_attr_read s len offset w)) = s\<lparr>button_state := True\<rparr>)
   \<and> (button_cb (lbs_cb s) = None \<longrightarrow>
        read_button attr_read s len offset w =
          (Inr [], s,
           w\<lparr>trace := trace w @
              [Log LOG_INF ''Attribute read, handle: %u, conn: %p'',
               Log LOG_ERR ''No button callback registered'']\<rparr>))"
  by (simp add: read_button_provider read_button_no_provider bt_gatt_attr_read_whole bool_byte_def)

theorem read_button_valid_request_witness:
  "fst (read_button bt_gatt_attr_read (lbs_registered 1000000) 23 0 pressed_world) = Inr [1]
   \<and> button_state (fst (snd (read_button bt_gatt_attr_read (lbs_registered 1000000) 23 0 pressed_world)))
   \<and> fst (read_button bt_gatt_attr_read lbs_unregistered 23 0 pressed_world) = Inr []
   \<and> fst (snd (read_button bt_gatt_attr_read lbs_unregistered 23 0 pressed_world)) = lbs_unregistered"
  using read_button_valid_request
      [where s = "lbs_registered 1000000" and cb = app_button_cb and w = pressed_world
         and offset = 0 and len = 23]
    read_button_valid_request
      [where s = lbs_unregistered and w = pressed_world and attr_read = bt_gatt_attr_read
         and offset = 0 and len = 23]
  by (simp add: lbs_registered_button_cb lbs_unregistered_cb app_button_cb_pressed)

text \<open>
  Claim C10. With a provider registered, the stored button value after a read is the
  provider's result, and the result of the read is whatever the attribute-read helper
  makes of the request and of the byte just stored. This holds for every helper, so also
  when the helper refuses the request.
\<close>

theorem read_button_stores_before_helper:
  "button_cb (lbs_cb s) = Some cb \<longrightarrow>
     fst (read_button attr_read s len offset w) =
       attr_read len offset
         [bool_byte (fst (cb (log_msg LOG_INF ''Attribute read, handle: %u, conn: %p'' w)))]
     \<and> button_state (fst (snd (read_button attr_read s len offset w))) =
         fst (cb (log_msg LOG_INF ''Attribute read, handle: %u, conn: %p'' w))"
  by (simp add: read_button_provider)

theorem read_button_stores_before_helper_witness:
  "fst (read_button bt_gatt_attr_read (lbs_registered 1000000) 23 2 pressed_world) =
     Inl BT_ATT_ERR_INVALID_OFFSET
   \<and> \<not> button_state (lbs_registered 1000000)
   \<and> button_state (fst (snd (read_button bt_gatt_attr_read (lbs_registered 1000000) 23 2 pressed_world)))"
  using read_button_stores_before_helper
      [where s = "lbs_registered 1000000" and cb = app_button_cb and w = pressed_world
         and attr_read = bt_gatt_attr_read and offset = 2 and len = 23]
  by (simp add: lbs_registered_button_cb app_button_cb_pressed bt_gatt_attr_read_def
        lbs_registered_button_state)

end
